theory Spec2Isabelle
  imports Complex_Main "HOL-Library.Log_Nat"
begin

section \<open>Data model of main.py\<close>

text \<open>
  A \<^verbatim>\<open>datetime.date\<close> is a calendar date without a time component: three
  integers. Python keeps \<open>1 \<le> year \<le> 9999\<close>, \<open>1 \<le> month \<le> 12\<close> and a day that
  exists in that month; only the ranges matter below.
\<close>

record date =
  year :: nat
  month :: nat
  day :: nat

text \<open>The dataclass \<^verbatim>\<open>FlightItinerary\<close>.\<close>

record FlightItinerary =
  home_out :: string
  dest_in :: string
  dest_out :: string
  home_in :: string
  date_from :: date
  date_to :: date

section \<open>The itinerary generator\<close>

text \<open>
  \<^verbatim>\<open>
  def all_flight_options(us_ports, japan_ports, date_from, date_to):
      return [
          FlightItinerary(u_out, j_in, j_out, u_in, date_from, date_to)
          for u_out in us_ports
          for j_in in japan_ports
          for j_out in japan_ports
          for u_in in us_ports
      ]
  \<close>
\<close>

definition all_flight_options ::
    "string list \<Rightarrow> string list \<Rightarrow> date \<Rightarrow> date \<Rightarrow> FlightItinerary list" where
  "all_flight_options us_ports japan_ports df dt =
     [\<lparr>home_out = u_out, dest_in = j_in, dest_out = j_out, home_in = u_in,
        date_from = df, date_to = dt\<rparr>.
        u_out \<leftarrow> us_ports, j_in \<leftarrow> japan_ports, j_out \<leftarrow> japan_ports, u_in \<leftarrow> us_ports]"

section \<open>Python values\<close>

text \<open>
  A Python \<^verbatim>\<open>float\<close> is an IEEE 754 binary64 number. A finite non-zero value and
  \<open>+0.0\<close> are given by their exact rational value, \<open>-0.0\<close>, the infinities (\<open>True\<close>
  for the negative one) and NaN by constructors of their own.
\<close>

datatype pyfloat = FFin rat | FNegZero | FInf bool | FNan

text \<open>
  What \<^verbatim>\<open>json.loads\<close> returns: \<^verbatim>\<open>None\<close>, a bool, an unbounded int, a float, a
  str, a list, or a dict (its items in insertion order, looked up by key).
\<close>

datatype json =
    JNull
  | JBool bool
  | JInt int
  | JFloat pyfloat
  | JStr string
  | JArr "json list"
  | JObj "(string \<times> json) list"

text \<open>The exceptions that the functions below can raise.\<close>

datatype exn = KeyError string | TypeError | OverflowError | OSError

text \<open>The dataclasses \<^verbatim>\<open>KiwiFlightInfo\<close>, \<^verbatim>\<open>BestFlights\<close> and
  \<^verbatim>\<open>AllOptionsForJapan\<close>. The field annotations of a dataclass are not checked
  when it is built, so \<open>price\<close>, \<open>quality\<close> and \<open>link\<close> hold whatever the response held;
  \<open>duration\<close> is always the float that \<^verbatim>\<open>round\<close> returned.\<close>

record KiwiFlightInfo =
  price :: json
  duration :: pyfloat
  quality :: json
  link :: json

record BestFlights =
  flight_plan :: FlightItinerary
  search_results :: "KiwiFlightInfo list"

record AllOptionsForJapan =
  all_flight_plans :: "BestFlights list"

section \<open>Float arithmetic: true division and two-digit rounding\<close>

text \<open>Rounding a rational to the nearest integer, ties to the even one.\<close>

definition rhe :: "rat \<Rightarrow> int" where
  "rhe x = (let f = \<lfloor>x\<rfloor>; r = x - of_int f in
            if r < 1 / 2 then f else if 1 / 2 < r then f + 1
            else if even f then f else f + 1)"

text \<open>For \<open>q > 0\<close>, the exponent \<open>e\<close> with \<open>2\<^sup>e \<le> q < 2\<^sup>e\<^sup>+\<^sup>1\<close>.\<close>

definition expo :: "rat \<Rightarrow> int" where
  "expo q = (if 1 \<le> q then int (floorlog 2 (nat \<lfloor>q\<rfloor>)) - 1
             else - int (floorlog 2 (nat (\<lceil>1 / q\<rceil> - 1))))"

text \<open>
  The binary64 number nearest to \<open>q\<close>, ties to even: 53 significant bits, and no bit
  below \<open>2\<^sup>-\<^sup>1\<^sup>0\<^sup>7\<^sup>4\<close> (the subnormal range). The bound at the top of the range is
  checked where it can be reached.
\<close>

definition b64 :: "rat \<Rightarrow> rat" where
  "b64 q = (if q = 0 then 0
            else let e = max (expo \<bar>q\<bar> - 52) (- 1074)
                 in of_int (rhe (q / 2 powi e)) * 2 powi e)"

text \<open>The float with the sign of \<open>q\<close> and the value \<open>b64 q\<close>: a negative \<open>q\<close> that
  rounds to zero gives \<open>-0.0\<close>.\<close>

definition to_float :: "rat \<Rightarrow> pyfloat" where
  "to_float q = (if q < 0 \<and> b64 q = 0 then FNegZero else FFin (b64 q))"

text \<open>
  \<^verbatim>\<open>a / 3600\<close> for an int \<open>a\<close>: the correctly rounded quotient, and
  \<^verbatim>\<open>OverflowError\<close> when that is beyond the largest float.
\<close>

definition int_truediv_3600 :: "int \<Rightarrow> exn + pyfloat" where
  "int_truediv_3600 a =
     (if 2 ^ 1024 \<le> \<bar>b64 (of_int a / 3600)\<bar> then Inl OverflowError
      else Inr (to_float (of_int a / 3600)))"

text \<open>\<^verbatim>\<open>x / 3600\<close> for a float \<open>x\<close>: IEEE division by \<open>3600.0\<close>.\<close>

definition float_truediv_3600 :: "pyfloat \<Rightarrow> pyfloat" where
  "float_truediv_3600 x =
     (case x of FFin q \<Rightarrow> to_float (q / 3600) | FNegZero \<Rightarrow> FNegZero
      | FInf s \<Rightarrow> FInf s | FNan \<Rightarrow> FNan)"

text \<open>
  \<^verbatim>\<open>v / 3600\<close> for a value of the response: a bool is an int, and \<^verbatim>\<open>None\<close>, a
  str, a list and a dict raise \<^verbatim>\<open>TypeError\<close>.
\<close>

definition truediv_3600 :: "json \<Rightarrow> exn + pyfloat" where
  "truediv_3600 v =
     (case v of
        JInt a \<Rightarrow> int_truediv_3600 a
      | JBool b \<Rightarrow> int_truediv_3600 (if b then 1 else 0)
      | JFloat x \<Rightarrow> Inr (float_truediv_3600 x)
      | JNull \<Rightarrow> Inl TypeError
      | JStr s \<Rightarrow> Inl TypeError
      | JArr xs \<Rightarrow> Inl TypeError
      | JObj kvs \<Rightarrow> Inl TypeError)"

text \<open>
  \<^verbatim>\<open>round(x, 2)\<close> for a float \<open>x\<close>: the exact value of \<open>x\<close> is rounded to two
  decimals, ties to even, and the float nearest to that decimal is returned; the sign
  is kept, and an infinity or a NaN is returned as it is.
\<close>

definition round2 :: "pyfloat \<Rightarrow> pyfloat" where
  "round2 x =
     (case x of
        FFin q \<Rightarrow> (if q < 0 \<and> rhe (100 * q) = 0 then FNegZero
                   else FFin (b64 (of_int (rhe (100 * q)) / 100)))
      | FNegZero \<Rightarrow> FNegZero
      | FInf s \<Rightarrow> FInf s
      | FNan \<Rightarrow> FNan)"

section \<open>The request builder\<close>

text \<open>The decimal digits of a natural number (\<open>digit_char\<close> is only applied to
  \<open>n < 10\<close>), and padding with zeros on the left.\<close>

definition digit_char :: "nat \<Rightarrow> char" where
  "digit_char n = ''0123456789'' ! n"

function dec :: "nat \<Rightarrow> string" where
  "dec n = (if n < 10 then [digit_char n] else dec (n div 10) @ [digit_char (n mod 10)])"
  by pat_completeness auto
termination
  by (relation "measure (\<lambda>n. n)") auto

declare dec.simps [simp del]

definition zero_pad :: "nat \<Rightarrow> string \<Rightarrow> string" where
  "zero_pad w s = replicate (w - length s) (CHR ''0'') @ s"

text \<open>
  \<^verbatim>\<open>
  def date_to_kiwi_format(self, d: date) -> str:
      return d.strftime("%d/%m/%Y")
  \<close>
  \<^verbatim>\<open>%d\<close> and \<^verbatim>\<open>%m\<close> are the day and the month, zero-padded to two digits, and
  \<^verbatim>\<open>%Y\<close> is the year in decimal. CPython hands the format to the C library, and
  the C library of Linux does not pad a year below 1000 (\<^verbatim>\<open>date(999, 1, 1)\<close> gives
  \<^verbatim>\<open>01/01/999\<close>); from 1000 to 9999 every platform prints the four digits.
\<close>

definition date_to_kiwi_format :: "date \<Rightarrow> string" where
  "date_to_kiwi_format d =
     zero_pad 2 (dec (day d)) @ ''/'' @ zero_pad 2 (dec (month d)) @ ''/''
       @ dec (year d)"

text \<open>The dict \<^verbatim>\<open>payload\<close> that \<^verbatim>\<open>get_raw_kiwi_results\<close> builds and posts.\<close>

definition payload :: "FlightItinerary \<Rightarrow> json" where
  "payload fp =
     JObj [(''requests'', JArr [
       JObj [(''limit'', JInt 5),
             (''sort'', JStr ''quality''),
             (''curr'', JStr ''USD''),
             (''fly_to'', JStr (dest_in fp)),
             (''fly_from'', JStr (home_out fp)),
             (''date_from'', JStr (date_to_kiwi_format (date_from fp))),
             (''date_to'', JStr (date_to_kiwi_format (date_from fp))),
             (''adults'', JInt 1)],
       JObj [(''limit'', JInt 5),
             (''sort'', JStr ''quality''),
             (''curr'', JStr ''USD''),
             (''fly_to'', JStr (home_in fp)),
             (''fly_from'', JStr (dest_out fp)),
             (''date_from'', JStr (date_to_kiwi_format (date_to fp))),
             (''date_to'', JStr (date_to_kiwi_format (date_to fp))),
             (''adults'', JInt 1)]])]"

section \<open>The remote call\<close>

text \<open>
  What happens inside the \<^verbatim>\<open>try\<close> block of \<^verbatim>\<open>get_raw_kiwi_results\<close>:
  \<^verbatim>\<open>requests.post\<close> raises (a network or transport error), or
  \<^verbatim>\<open>response.raise_for_status()\<close> raises (the status is not a success), or
  \<^verbatim>\<open>json.loads\<close> raises (the body is not JSON), or \<^verbatim>\<open>json.loads\<close> returns a
  value. The remote side decides which, given the posted payload; the URL and the headers
  (the content type and the API key of the \<^verbatim>\<open>config\<close> module) are the same for
  every request. The \<^verbatim>\<open>print\<close> calls write to the terminal only and are left out.
\<close>

datatype kiwi_call = Post_raises | Status_raises | Loads_raises | Loads_returns json

type_synonym remote = "json \<Rightarrow> kiwi_call"

text \<open>
  \<^verbatim>\<open>
  try:
      response = requests.post(url, data=json_payload, headers=headers)
      response.raise_for_status()
      response_data = json.loads(response.text)
      return response_data
  except Exception as e:
      print("Error: ", e)
  return None
  \<close>
\<close>

definition get_raw_kiwi_results :: "remote \<Rightarrow> FlightItinerary \<Rightarrow> json" where
  "get_raw_kiwi_results kiwi fp =
     (case kiwi (payload fp) of
        Post_raises \<Rightarrow> JNull
      | Status_raises \<Rightarrow> JNull
      | Loads_raises \<Rightarrow> JNull
      | Loads_returns response_data \<Rightarrow> response_data)"

text \<open>
  Which of the four it is, in terms of the HTTP exchange. The exchange gives no answer
  (\<^verbatim>\<open>requests.post\<close> raises), or an answer with a status code and a body that
  \<^verbatim>\<open>json.loads\<close> rejects (\<open>None\<close>) or parses.
\<close>

datatype http_answer = No_answer | Answer nat "json option"

text \<open>
  \<^verbatim>\<open>response.raise_for_status()\<close> of the requests library raises \<^verbatim>\<open>HTTPError\<close>
  for a status code from 400 to 599 and returns for every other status code, also for a
  1xx or a 3xx one. \<open>True\<close> stands for raising.
\<close>

definition raise_for_status :: "nat \<Rightarrow> bool" where
  "raise_for_status status_code = (400 \<le> status_code \<and> status_code < 600)"

definition kiwi_of_http :: "(json \<Rightarrow> http_answer) \<Rightarrow> remote" where
  "kiwi_of_http server body =
     (case server body of
        No_answer \<Rightarrow> Post_raises
      | Answer status_code loaded \<Rightarrow>
          if raise_for_status status_code then Status_raises
          else (case loaded of None \<Rightarrow> Loads_raises
                | Some response_data \<Rightarrow> Loads_returns response_data))"

section \<open>The extractor\<close>

text \<open>\<^verbatim>\<open>v[k]\<close> for a str key \<open>k\<close>: only a dict can be indexed by a str.\<close>

definition getitem :: "json \<Rightarrow> string \<Rightarrow> exn + json" where
  "getitem v k =
     (case v of
        JObj kvs \<Rightarrow> (case map_of kvs k of None \<Rightarrow> Inl (KeyError k) | Some x \<Rightarrow> Inr x)
      | JNull \<Rightarrow> Inl TypeError
      | JBool b \<Rightarrow> Inl TypeError
      | JInt i \<Rightarrow> Inl TypeError
      | JFloat x \<Rightarrow> Inl TypeError
      | JStr s \<Rightarrow> Inl TypeError
      | JArr xs \<Rightarrow> Inl TypeError)"

text \<open>
  \<^verbatim>\<open>
  def extract_flight_info(self, kiwi_result: dict) -> KiwiFlightInfo:
      price: int = kiwi_result["price"]
      duration: float = round((kiwi_result["duration"]) / 3600, 2)
      quality: float = kiwi_result["quality"]
      link: str = kiwi_result["deep_link"]
      return KiwiFlightInfo(price, duration, quality, link)
  \<close>
\<close>

definition extract_flight_info :: "json \<Rightarrow> exn + KiwiFlightInfo" where
  "extract_flight_info kiwi_result =
     (case getitem kiwi_result ''price'' of Inl e \<Rightarrow> Inl e | Inr p \<Rightarrow>
     (case getitem kiwi_result ''duration'' of Inl e \<Rightarrow> Inl e | Inr d \<Rightarrow>
     (case truediv_3600 d of Inl e \<Rightarrow> Inl e | Inr h \<Rightarrow>
     (case getitem kiwi_result ''quality'' of Inl e \<Rightarrow> Inl e | Inr q \<Rightarrow>
     (case getitem kiwi_result ''deep_link'' of Inl e \<Rightarrow> Inl e | Inr l \<Rightarrow>
        Inr \<lparr>price = p, duration = round2 h, quality = q, link = l\<rparr>)))))"

section \<open>The searcher\<close>

text \<open>
  \<^verbatim>\<open>for i in v\<close>: a list gives its items, a dict its keys, a str its characters;
  \<^verbatim>\<open>None\<close>, a bool and a number raise \<^verbatim>\<open>TypeError\<close>.
\<close>

definition py_iter :: "json \<Rightarrow> exn + json list" where
  "py_iter v =
     (case v of
        JArr xs \<Rightarrow> Inr xs
      | JObj kvs \<Rightarrow> Inr (map (\<lambda>kv. JStr (fst kv)) kvs)
      | JStr s \<Rightarrow> Inr (map (\<lambda>c. JStr [c]) s)
      | JNull \<Rightarrow> Inl TypeError
      | JBool b \<Rightarrow> Inl TypeError
      | JInt i \<Rightarrow> Inl TypeError
      | JFloat x \<Rightarrow> Inl TypeError)"

text \<open>The comprehension \<^verbatim>\<open>[self.extract_flight_info(i) for i in kiwi_result]\<close>: the
  first item that raises ends it.\<close>

fun extract_all :: "json list \<Rightarrow> exn + KiwiFlightInfo list" where
  "extract_all [] = Inr []"
| "extract_all (i # rest) =
     (case extract_flight_info i of Inl e \<Rightarrow> Inl e | Inr info \<Rightarrow>
     (case extract_all rest of Inl e \<Rightarrow> Inl e | Inr infos \<Rightarrow> Inr (info # infos)))"

text \<open>
  \<^verbatim>\<open>
  def set_flights(self, kiwi_result: dict):
      self.search_results = [self.extract_flight_info(i) for i in kiwi_result]
  \<close>
  The attribute is assigned only when the whole comprehension has been evaluated.
\<close>

definition set_flights :: "json \<Rightarrow> BestFlights \<Rightarrow> exn + BestFlights" where
  "set_flights kiwi_result self =
     (case py_iter kiwi_result of Inl e \<Rightarrow> Inl e | Inr items \<Rightarrow>
     (case extract_all items of Inl e \<Rightarrow> Inl e | Inr infos \<Rightarrow>
        Inr (self\<lparr>search_results := infos\<rparr>)))"

text \<open>
  \<^verbatim>\<open>
  def search_and_set_flights(self) -> bool:
      try:
          print("Searching: ", self.flight_plan)
          raw_top_5_itineraries = self.get_raw_kiwi_results(self.flight_plan)
          self.set_flights(raw_top_5_itineraries)
          return True
      except Exception as e:
          print("Error: ", e)
      return None
  \<close>
  The result is the returned value (\<^verbatim>\<open>True\<close> is \<open>Some True\<close>, \<^verbatim>\<open>None\<close> is
  \<open>None\<close>) and the object after the call. The handler catches every exception of the
  body, so the function has no exceptional result.
\<close>

definition search_and_set_flights :: "remote \<Rightarrow> BestFlights \<Rightarrow> bool option \<times> BestFlights" where
  "search_and_set_flights kiwi self =
     (case set_flights (get_raw_kiwi_results kiwi (flight_plan self)) self of
        Inr self' \<Rightarrow> (Some True, self')
      | Inl e \<Rightarrow> (None, self))"


section \<open>The exporter\<close>

text \<open>
  A cell handed to \<^verbatim>\<open>csv.writer\<close>: an airport code, a date, the float of
  \<open>duration\<close>, or a value of the response. A file is the list of the rows written to it.
\<close>

datatype cell = CStr string | CDate date | CJson json | CFloat pyfloat

type_synonym files = "string \<rightharpoonup> cell list list"

definition csv_header :: "cell list" where
  "csv_header =
     [CStr ''Home Out'', CStr ''Dest In'', CStr ''Dest Out'', CStr ''Home In'',
      CStr ''Date From'', CStr ''Date To'', CStr ''Price'', CStr ''Duration'',
      CStr ''Quality'', CStr ''Link'']"

text \<open>The comprehension \<^verbatim>\<open>rows\<close> of \<^verbatim>\<open>to_csv\<close>.\<close>

definition rows :: "AllOptionsForJapan \<Rightarrow> cell list list" where
  "rows self =
     [[CStr (home_out fp), CStr (dest_in fp), CStr (dest_out fp), CStr (home_in fp),
       CDate (date_from fp), CDate (date_to fp),
       CJson (price flight_info), CFloat (duration flight_info),
       CJson (quality flight_info), CJson (link flight_info)].
        plan \<leftarrow> all_flight_plans self, flight_info \<leftarrow> search_results plan,
        fp \<leftarrow> [flight_plan plan]]"

text \<open>
  What the operating system does to the four steps of the \<^verbatim>\<open>with\<close> block: opening
  the file for writing, \<^verbatim>\<open>writer.writerow\<close>, \<^verbatim>\<open>writer.writerows\<close> and closing
  the file may each raise.
\<close>

record file_io =
  open_raises :: "exn option"
  writerow_raises :: "exn option"
  writerows_raises :: "exn option"
  close_raises :: "exn option"

text \<open>
  \<^verbatim>\<open>
  with open(csv_name, mode="w", newline="") as csv_file:
      writer = csv.writer(csv_file)
      writer.writerow(csv_header)
      rows = [...]
      writer.writerows(rows)
  print(f"Flight info has been written to {csv_name}")
  return 0
  \<close>
  There is no handler: the first step that raises ends the call with its exception.
\<close>

definition to_csv :: "file_io \<Rightarrow> AllOptionsForJapan \<Rightarrow> string \<Rightarrow> files \<Rightarrow> exn + (int \<times> files)" where
  "to_csv io self csv_name fs =
     (case open_raises io of Some e \<Rightarrow> Inl e | None \<Rightarrow>
     (case writerow_raises io of Some e \<Rightarrow> Inl e | None \<Rightarrow>
     (case writerows_raises io of Some e \<Rightarrow> Inl e | None \<Rightarrow>
     (case close_raises io of Some e \<Rightarrow> Inl e | None \<Rightarrow>
        Inr (0, fs(csv_name \<mapsto> csv_header # rows self))))))"

section \<open>Sample data\<close>

text \<open>A well-formed result record, an itinerary, a batch of one entry whose search has not
  run, a remote side that answers every request with the same parsed value, and an operating
  system that lets every file operation through.\<close>

definition sample_record :: json where
  "sample_record =
     JObj [(''price'', JInt 450), (''duration'', JInt 36000),
           (''quality'', JFloat (FFin (15 / 2))), (''deep_link'', JStr ''http://x'')]"

definition sample_plan :: FlightItinerary where
  "sample_plan =
     \<lparr>home_out = ''LAX'', dest_in = ''HND'', dest_out = ''NRT'', home_in = ''LAX'',
      date_from = \<lparr>year = 2024, month = 3, day = 22\<rparr>,
      date_to = \<lparr>year = 2024, month = 4, day = 1\<rparr>\<rparr>"

definition sample_batch :: AllOptionsForJapan where
  "sample_batch = \<lparr>all_flight_plans = [\<lparr>flight_plan = sample_plan, search_results = []\<rparr>]\<rparr>"

definition kiwi_returns :: "json \<Rightarrow> remote" where
  "kiwi_returns v body = Loads_returns v"

definition kiwi_fails :: remote where
  "kiwi_fails body = Status_raises"

definition server_answers :: "nat \<Rightarrow> json option \<Rightarrow> json \<Rightarrow> http_answer" where
  "server_answers status_code loaded body = Answer status_code loaded"


definition io_ok :: file_io where
  "io_ok = \<lparr>open_raises = None, writerow_raises = None, writerows_raises = None,
            close_raises = None\<rparr>"

section \<open>Facts about nested comprehensions\<close>

lemma length_concat_map_const:
  "(\<And>x. x \<in> set xs \<Longrightarrow> length (f x) = k) \<Longrightarrow> length (concat (map f xs)) = length xs * k"
  by (induction xs) simp_all

lemma nth_concat_map_const:
  "(\<And>x. x \<in> set xs \<Longrightarrow> length (f x) = k) \<Longrightarrow> i < length xs \<Longrightarrow> j < k \<Longrightarrow>
   concat (map f xs) ! (i * k + j) = f (xs ! i) ! j"
proof (induction xs arbitrary: i)
  case Nil
  then show ?case by simp
next
  case (Cons x xs)
  have lx: "length (f x) = k" using Cons.prems(1) by simp
  show ?case
  proof (cases i)
    case 0
    then show ?thesis using lx Cons.prems(3) by (simp add: nth_append)
  next
    case (Suc i')
    have "concat (map f xs) ! (i' * k + j) = f (xs ! i') ! j"
      using Cons.IH [of i'] Cons.prems Suc by simp
    then show ?thesis using lx Suc by (simp add: nth_append add.assoc)
  qed
qed

section \<open>The generator is the ordered fourfold product\<close>

text \<open>
  C2. For origin ports \<open>A\<close> (\<open>m\<close> entries) and destination ports \<open>B\<close> (\<open>n\<close> entries) and a
  fixed date pair, \<open>all_flight_options\<close> returns exactly \<open>m\<^sup>2 \<cdot> n\<^sup>2\<close> itineraries; the
  itinerary at position \<open>((i \<cdot> n + j) \<cdot> n + k) \<cdot> m + l\<close> is
  \<open>(A ! i, B ! j, B ! k, A ! l)\<close> with the given dates, so origin-out is the outermost
  index, then dest-in, then dest-out, and origin-in is innermost; the itineraries are
  exactly the Cartesian product with repetition; \<open>[LAX]\<close> and \<open>[HND, NRT]\<close> give the four
  itineraries of the specification in its order; an empty port list gives the empty list.
\<close>

theorem all_flight_options_product:
  "length (all_flight_options A B df dt) = (length A)\<^sup>2 * (length B)\<^sup>2
   \<and> (\<forall>i j k l. i < length A \<and> j < length B \<and> k < length B \<and> l < length A \<longrightarrow>
        all_flight_options A B df dt ! (((i * length B + j) * length B + k) * length A + l)
        = \<lparr>home_out = A ! i, dest_in = B ! j, dest_out = B ! k, home_in = A ! l,
           date_from = df, date_to = dt\<rparr>)
   \<and> set (all_flight_options A B df dt)
       = {\<lparr>home_out = a1, dest_in = b1, dest_out = b2, home_in = a2,
            date_from = df, date_to = dt\<rparr> | a1 b1 b2 a2.
            a1 \<in> set A \<and> b1 \<in> set B \<and> b2 \<in> set B \<and> a2 \<in> set A}
   \<and> all_flight_options [''LAX''] [''HND'', ''NRT''] df dt
       = [\<lparr>home_out = ''LAX'', dest_in = ''HND'', dest_out = ''HND'', home_in = ''LAX'',
            date_from = df, date_to = dt\<rparr>,
          \<lparr>home_out = ''LAX'', dest_in = ''HND'', dest_out = ''NRT'', home_in = ''LAX'',
            date_from = df, date_to = dt\<rparr>,
          \<lparr>home_out = ''LAX'', dest_in = ''NRT'', dest_out = ''HND'', home_in = ''LAX'',
            date_from = df, date_to = dt\<rparr>,
          \<lparr>home_out = ''LAX'', dest_in = ''NRT'', dest_out = ''NRT'', home_in = ''LAX'',
            date_from = df, date_to = dt\<rparr>]
   \<and> all_flight_options [] B df dt = []
   \<and> all_flight_options A [] df dt = []"
proof -
  let ?mk = "\<lambda>a1 b1 b2 a2. \<lparr>home_out = a1, dest_in = b1, dest_out = b2, home_in = a2,
                date_from = df, date_to = dt\<rparr>"
  let ?f3 = "\<lambda>a1 b1 b2. map (?mk a1 b1 b2) A"
  let ?f2 = "\<lambda>a1 b1. concat (map (?f3 a1 b1) B)"
  let ?f1 = "\<lambda>a1. concat (map (?f2 a1) B)"
  let ?m = "length A" and ?n = "length B"
  have def: "all_flight_options A B df dt = concat (map ?f1 A)"
    by (simp add: all_flight_options_def)
  have l3: "length (?f3 a1 b1 b2) = ?m" for a1 b1 b2 by simp
  have l2: "length (?f2 a1 b1) = ?n * ?m" for a1 b1
    by (rule length_concat_map_const) simp
  have l1: "length (?f1 a1) = ?n * (?n * ?m)" for a1
    by (rule length_concat_map_const) (rule l2)
  have len: "length (all_flight_options A B df dt) = (length A)\<^sup>2 * (length B)\<^sup>2"
    unfolding def
    by (subst length_concat_map_const [where k = "?n * (?n * ?m)"])
       (simp_all only: l1 power2_eq_square mult_ac)
  have idx: "all_flight_options A B df dt ! (((i * ?n + j) * ?n + k) * ?m + l)
        = ?mk (A ! i) (B ! j) (B ! k) (A ! l)"
    if b: "i < ?m" "j < ?n" "k < ?n" "l < ?m" for i j k l
  proof -
    have kl: "k * ?m + l < ?n * ?m"
    proof -
      have "k * ?m + l < k * ?m + ?m" using b(4) by simp
      also have "\<dots> = Suc k * ?m" by simp
      also have "\<dots> \<le> ?n * ?m" using b(3) by (intro mult_le_mono1) simp
      finally show ?thesis .
    qed
    have jkl: "j * (?n * ?m) + (k * ?m + l) < ?n * (?n * ?m)"
    proof -
      have "j * (?n * ?m) + (k * ?m + l) < j * (?n * ?m) + ?n * ?m" using kl by simp
      also have "\<dots> = Suc j * (?n * ?m)" by simp
      also have "\<dots> \<le> ?n * (?n * ?m)" using b(2) by (intro mult_le_mono1) simp
      finally show ?thesis .
    qed
    have pos: "((i * ?n + j) * ?n + k) * ?m + l
               = i * (?n * (?n * ?m)) + (j * (?n * ?m) + (k * ?m + l))"
      by (simp add: algebra_simps)
    have "concat (map ?f1 A) ! (i * (?n * (?n * ?m)) + (j * (?n * ?m) + (k * ?m + l)))
          = ?f1 (A ! i) ! (j * (?n * ?m) + (k * ?m + l))"
      by (rule nth_concat_map_const) (use l1 b(1) jkl in auto)
    also have "\<dots> = ?f2 (A ! i) (B ! j) ! (k * ?m + l)"
      by (rule nth_concat_map_const) (use l2 b(2) kl in auto)
    also have "\<dots> = ?f3 (A ! i) (B ! j) (B ! k) ! l"
      by (rule nth_concat_map_const) (use b(3) b(4) in auto)
    also have "\<dots> = ?mk (A ! i) (B ! j) (B ! k) (A ! l)"
      using b(4) by simp
    finally show ?thesis unfolding def pos .
  qed
  have st: "set (all_flight_options A B df dt)
       = {?mk a1 b1 b2 a2 | a1 b1 b2 a2.
            a1 \<in> set A \<and> b1 \<in> set B \<and> b2 \<in> set B \<and> a2 \<in> set A}"
    unfolding def by auto
  have ex: "all_flight_options [''LAX''] [''HND'', ''NRT''] df dt
       = [?mk ''LAX'' ''HND'' ''HND'' ''LAX'', ?mk ''LAX'' ''HND'' ''NRT'' ''LAX'',
          ?mk ''LAX'' ''NRT'' ''HND'' ''LAX'', ?mk ''LAX'' ''NRT'' ''NRT'' ''LAX'']"
    by (simp add: all_flight_options_def)
  have e1: "all_flight_options [] B df dt = []"
    by (simp add: all_flight_options_def)
  have e2: "all_flight_options A [] df dt = []"
    by (simp add: all_flight_options_def)
  show ?thesis
    using len idx st ex e1 e2 by blast
qed

theorem all_flight_options_product_witness:
  "(0::nat) < length [''LAX''] \<and> (1::nat) < length [''HND'', ''NRT'']
   \<and> (0::nat) < length [''HND'', ''NRT'']
   \<and> all_flight_options [''LAX''] [''HND'', ''NRT'']
         \<lparr>year = 2024, month = 3, day = 22\<rparr> \<lparr>year = 2024, month = 4, day = 1\<rparr> ! 2
       = \<lparr>home_out = ''LAX'', dest_in = ''NRT'', dest_out = ''HND'', home_in = ''LAX'',
          date_from = \<lparr>year = 2024, month = 3, day = 22\<rparr>,
          date_to = \<lparr>year = 2024, month = 4, day = 1\<rparr>\<rparr>
   \<and> length (all_flight_options [''LAX''] [''HND'', ''NRT'']
         \<lparr>year = 2024, month = 3, day = 22\<rparr> \<lparr>year = 2024, month = 4, day = 1\<rparr>) = 4"
proof -
  let ?A = "[''LAX'']" and ?B = "[''HND'', ''NRT'']"
  let ?df = "\<lparr>year = 2024, month = 3, day = 22\<rparr>"
  let ?dt = "\<lparr>year = 2024, month = 4, day = 1\<rparr>"
  note p = all_flight_options_product [of ?A ?B ?df ?dt]
  have h: "(0::nat) < length ?A \<and> (1::nat) < length ?B \<and> (0::nat) < length ?B \<and> (0::nat) < length ?A"
    by simp
  from p have "\<forall>i j k l. i < length ?A \<and> j < length ?B \<and> k < length ?B \<and> l < length ?A \<longrightarrow>
        all_flight_options ?A ?B ?df ?dt ! (((i * length ?B + j) * length ?B + k) * length ?A + l)
        = \<lparr>home_out = ?A ! i, dest_in = ?B ! j, dest_out = ?B ! k, home_in = ?A ! l,
           date_from = ?df, date_to = ?dt\<rparr>"
    by (rule conjunct1 [OF conjunct2])
  from this [rule_format, of 0 1 0 0, OF h]
  have n: "all_flight_options ?A ?B ?df ?dt ! 2
       = \<lparr>home_out = ''LAX'', dest_in = ''NRT'', dest_out = ''HND'', home_in = ''LAX'',
          date_from = ?df, date_to = ?dt\<rparr>"
    by (simp add: numeral_2_eq_2)
  from p have "length (all_flight_options ?A ?B ?df ?dt) = (length ?A)\<^sup>2 * (length ?B)\<^sup>2"
    by (rule conjunct1)
  then have l: "length (all_flight_options ?A ?B ?df ?dt) = 4"
    by (simp add: power2_eq_square)
  show ?thesis using n l by simp
qed

section \<open>The request payload\<close>


lemma digit_char_0: "digit_char 0 = CHR ''0''"
  by (simp add: digit_char_def)

lemma dec_lt10: "n < 10 \<Longrightarrow> dec n = [digit_char n]"
  by (simp add: dec.simps)

lemma dec_lt100:
  assumes "10 \<le> n" "n < 100"
  shows "dec n = [digit_char (n div 10), digit_char (n mod 10)]"
proof -
  have "n div 10 < 10" using assms by simp
  then have "dec (n div 10) = [digit_char (n div 10)]" by (rule dec_lt10)
  then show ?thesis using assms by (subst dec.simps) simp
qed

lemma dec_lt1000:
  assumes "100 \<le> n" "n < 1000"
  shows "dec n = [digit_char (n div 100), digit_char (n div 10 mod 10), digit_char (n mod 10)]"
proof -
  have "10 \<le> n div 10" "n div 10 < 100" using assms by simp_all
  then have "dec (n div 10) = [digit_char (n div 10 div 10), digit_char (n div 10 mod 10)]"
    by (rule dec_lt100)
  then show ?thesis using assms by (subst dec.simps) (simp add: div_mult2_eq [symmetric])
qed

lemma dec_lt10000:
  assumes "1000 \<le> n" "n < 10000"
  shows "dec n = [digit_char (n div 1000), digit_char (n div 100 mod 10),
                  digit_char (n div 10 mod 10), digit_char (n mod 10)]"
proof -
  have "100 \<le> n div 10" "n div 10 < 1000" using assms by simp_all
  then have "dec (n div 10) = [digit_char (n div 10 div 100), digit_char (n div 10 div 10 mod 10),
      digit_char (n div 10 mod 10)]"
    by (rule dec_lt1000)
  then show ?thesis using assms by (subst dec.simps) (simp add: div_mult2_eq [symmetric])
qed

lemma zero_pad_2_dec:
  assumes "n < 100"
  shows "zero_pad 2 (dec n) = [digit_char (n div 10), digit_char (n mod 10)]"
proof (cases "n < 10")
  case True
  then show ?thesis by (simp add: zero_pad_def dec_lt10 digit_char_0)
next
  case False
  then show ?thesis using assms by (simp add: zero_pad_def dec_lt100)
qed

lemma date_to_kiwi_format_digits:
  assumes "1000 \<le> year d" "year d \<le> 9999" "month d \<le> 12" "day d \<le> 31"
  shows "date_to_kiwi_format d =
     [digit_char (day d div 10), digit_char (day d mod 10), CHR ''/'',
      digit_char (month d div 10), digit_char (month d mod 10), CHR ''/'',
      digit_char (year d div 1000), digit_char (year d div 100 mod 10),
      digit_char (year d div 10 mod 10), digit_char (year d mod 10)]"
proof -
  have y: "dec (year d) = [digit_char (year d div 1000), digit_char (year d div 100 mod 10),
      digit_char (year d div 10 mod 10), digit_char (year d mod 10)]"
    using assms by (intro dec_lt10000) simp_all
  have m: "zero_pad 2 (dec (month d)) = [digit_char (month d div 10), digit_char (month d mod 10)]"
    using assms by (intro zero_pad_2_dec) simp
  have dd: "zero_pad 2 (dec (day d)) = [digit_char (day d div 10), digit_char (day d mod 10)]"
    using assms by (intro zero_pad_2_dec) simp
  show ?thesis
    unfolding date_to_kiwi_format_def y m dd by simp
qed

text \<open>
  C3. For every itinerary the payload holds exactly two leg specs under \<open>requests\<close>: leg 1
  flies from origin-out to dest-in with both date bounds the formatted depart date, leg 2
  flies from dest-out to origin-in with both date bounds the formatted return date; both
  legs carry limit 5, sort \<open>quality\<close>, currency \<open>USD\<close> and 1 adult. A date is formatted as
  two digits of the day, a slash, two digits of the month, a slash and the four digits of
  the year; 22 March 2024 is \<open>22/03/2024\<close>.
\<close>

theorem payload_two_legs:
  "(\<exists>leg1 leg2.
      payload fp = JObj [(''requests'', JArr [leg1, leg2])]
    \<and> getitem leg1 ''fly_from'' = Inr (JStr (home_out fp))
    \<and> getitem leg1 ''fly_to'' = Inr (JStr (dest_in fp))
    \<and> getitem leg1 ''date_from'' = Inr (JStr (date_to_kiwi_format (date_from fp)))
    \<and> getitem leg1 ''date_to'' = Inr (JStr (date_to_kiwi_format (date_from fp)))
    \<and> getitem leg2 ''fly_from'' = Inr (JStr (dest_out fp))
    \<and> getitem leg2 ''fly_to'' = Inr (JStr (home_in fp))
    \<and> getitem leg2 ''date_from'' = Inr (JStr (date_to_kiwi_format (date_to fp)))
    \<and> getitem leg2 ''date_to'' = Inr (JStr (date_to_kiwi_format (date_to fp)))
    \<and> getitem leg1 ''limit'' = Inr (JInt 5) \<and> getitem leg2 ''limit'' = Inr (JInt 5)
    \<and> getitem leg1 ''sort'' = Inr (JStr ''quality'')
    \<and> getitem leg2 ''sort'' = Inr (JStr ''quality'')
    \<and> getitem leg1 ''curr'' = Inr (JStr ''USD'') \<and> getitem leg2 ''curr'' = Inr (JStr ''USD'')
    \<and> getitem leg1 ''adults'' = Inr (JInt 1) \<and> getitem leg2 ''adults'' = Inr (JInt 1))
   \<and> (1000 \<le> year d \<and> year d \<le> 9999 \<and> 1 \<le> month d \<and> month d \<le> 12
        \<and> 1 \<le> day d \<and> day d \<le> 31 \<longrightarrow>
      date_to_kiwi_format d =
        [digit_char (day d div 10), digit_char (day d mod 10), CHR ''/'',
         digit_char (month d div 10), digit_char (month d mod 10), CHR ''/'',
         digit_char (year d div 1000), digit_char (year d div 100 mod 10),
         digit_char (year d div 10 mod 10), digit_char (year d mod 10)])
   \<and> date_to_kiwi_format \<lparr>year = 2024, month = 3, day = 22\<rparr> = ''22/03/2024''"
proof -
  have legs: "\<exists>leg1 leg2.
      payload fp = JObj [(''requests'', JArr [leg1, leg2])]
    \<and> getitem leg1 ''fly_from'' = Inr (JStr (home_out fp))
    \<and> getitem leg1 ''fly_to'' = Inr (JStr (dest_in fp))
    \<and> getitem leg1 ''date_from'' = Inr (JStr (date_to_kiwi_format (date_from fp)))
    \<and> getitem leg1 ''date_to'' = Inr (JStr (date_to_kiwi_format (date_from fp)))
    \<and> getitem leg2 ''fly_from'' = Inr (JStr (dest_out fp))
    \<and> getitem leg2 ''fly_to'' = Inr (JStr (home_in fp))
    \<and> getitem leg2 ''date_from'' = Inr (JStr (date_to_kiwi_format (date_to fp)))
    \<and> getitem leg2 ''date_to'' = Inr (JStr (date_to_kiwi_format (date_to fp)))
    \<and> getitem leg1 ''limit'' = Inr (JInt 5) \<and> getitem leg2 ''limit'' = Inr (JInt 5)
    \<and> getitem leg1 ''sort'' = Inr (JStr ''quality'')
    \<and> getitem leg2 ''sort'' = Inr (JStr ''quality'')
    \<and> getitem leg1 ''curr'' = Inr (JStr ''USD'') \<and> getitem leg2 ''curr'' = Inr (JStr ''USD'')
    \<and> getitem leg1 ''adults'' = Inr (JInt 1) \<and> getitem leg2 ''adults'' = Inr (JInt 1)"
    unfolding payload_def by (intro exI conjI, rule refl) (simp_all add: getitem_def)
  have fmt: "date_to_kiwi_format d =
        [digit_char (day d div 10), digit_char (day d mod 10), CHR ''/'',
         digit_char (month d div 10), digit_char (month d mod 10), CHR ''/'',
         digit_char (year d div 1000), digit_char (year d div 100 mod 10),
         digit_char (year d div 10 mod 10), digit_char (year d mod 10)]"
    if "1000 \<le> year d \<and> year d \<le> 9999 \<and> 1 \<le> month d \<and> month d \<le> 12
        \<and> 1 \<le> day d \<and> day d \<le> 31"
    using that by (intro date_to_kiwi_format_digits) simp_all
  have ex: "date_to_kiwi_format \<lparr>year = 2024, month = 3, day = 22\<rparr> = ''22/03/2024''"
    by (subst date_to_kiwi_format_digits) (simp_all add: digit_char_def)
  show ?thesis using legs fmt ex by blast
qed

theorem payload_two_legs_witness:
  "(1000::nat) \<le> 2024 \<and> (2024::nat) \<le> 9999 \<and> (1::nat) \<le> 4 \<and> (4::nat) \<le> 12
   \<and> (1::nat) \<le> 1 \<and> (1::nat) \<le> 31
   \<and> date_to_kiwi_format \<lparr>year = 2024, month = 4, day = 1\<rparr> = ''01/04/2024''"
proof -
  let ?d = "\<lparr>year = 2024, month = 4, day = 1\<rparr>"
  have h: "1000 \<le> year ?d \<and> year ?d \<le> 9999 \<and> 1 \<le> month ?d \<and> month ?d \<le> 12
        \<and> 1 \<le> day ?d \<and> day ?d \<le> 31"
    by simp
  have "date_to_kiwi_format ?d =
        [digit_char (day ?d div 10), digit_char (day ?d mod 10), CHR ''/'',
         digit_char (month ?d div 10), digit_char (month ?d mod 10), CHR ''/'',
         digit_char (year ?d div 1000), digit_char (year ?d div 100 mod 10),
         digit_char (year ?d div 10 mod 10), digit_char (year ?d mod 10)]"
    using payload_two_legs [of sample_plan ?d] h by blast
  then show ?thesis by (simp add: digit_char_def)
qed

section \<open>Binary64 rounding\<close>












lemma rhe_0: "rhe 0 = 0"
  by (simp add: rhe_def)



section \<open>The extractor on well-formed records\<close>

lemma b64_10: "b64 10 = 10"
  by (simp add: b64_def expo_def compute_floorlog rhe_def Let_def power_int_minus_divide)

lemma pow1024_gt: "\<not> (2::rat) ^ 1024 \<le> 10"
proof -
  have "(2::rat) ^ 4 \<le> 2 ^ 1024" by (rule power_increasing) simp_all
  then show ?thesis by simp
qed

lemma int_truediv_3600_36000: "int_truediv_3600 36000 = Inr (FFin 10)"
  by (simp add: int_truediv_3600_def to_float_def b64_10 pow1024_gt)

lemma round2_10: "round2 (FFin 10) = FFin 10"
  by (simp add: round2_def rhe_def Let_def b64_10)

lemma extract_sample_record:
  "extract_flight_info sample_record =
     Inr \<lparr>price = JInt 450, duration = FFin 10, quality = JFloat (FFin (15 / 2)),
          link = JStr ''http://x''\<rparr>"
  by (simp add: extract_flight_info_def sample_record_def getitem_def truediv_3600_def
      int_truediv_3600_36000 round2_10)



subsection \<open>Durations at a tie\<close>

lemma b64_200: "b64 (1 / 200) = 5764607523034235 / 2 ^ 60"
  by code_simp

lemma b64_3_200: "b64 (3 / 200) = 8646911284551352 / 2 ^ 59"
  by code_simp

lemma b64_100: "b64 (1 / 100) = 5764607523034235 / 2 ^ 59"
  by code_simp

text \<open>
  At an exact tie the neighbour depends on the binary quotient: 18 seconds are 0.005 hours
  and 54 seconds are 0.015 hours, the float nearest to 0.005 lies above it and the float
  nearest to 0.015 lies below it, and both durations come out as 0.01.
\<close>

lemma duration_ties:
  "truediv_3600 (JInt 18) = Inr (FFin (5764607523034235 / 2 ^ 60))"
  "round2 (FFin (5764607523034235 / 2 ^ 60)) = FFin (b64 (1 / 100))"
  "truediv_3600 (JInt 54) = Inr (FFin (8646911284551352 / 2 ^ 59))"
  "round2 (FFin (8646911284551352 / 2 ^ 59)) = FFin (b64 (1 / 100))"
proof -
  have big: "\<not> (2::rat) ^ 1024 \<le> 1"
  proof -
    have "(2::rat) ^ 1 \<le> 2 ^ 1024" by (rule power_increasing) simp_all
    then show ?thesis by simp
  qed
  have s1: "\<bar>(5764607523034235::rat) / 2 ^ 60\<bar> \<le> 1" by simp
  have s2: "\<bar>(8646911284551352::rat) / 2 ^ 59\<bar> \<le> 1" by simp
  have n1: "\<not> 2 ^ 1024 \<le> \<bar>(5764607523034235::rat) / 2 ^ 60\<bar>" using big s1 by linarith
  have n2: "\<not> 2 ^ 1024 \<le> \<bar>(8646911284551352::rat) / 2 ^ 59\<bar>" using big s2 by linarith
  have q1: "(of_int 18 :: rat) / 3600 = 1 / 200" by simp
  have q2: "(of_int 54 :: rat) / 3600 = 3 / 200" by simp
  show "truediv_3600 (JInt 18) = Inr (FFin (5764607523034235 / 2 ^ 60))"
    using n1 by (simp only: truediv_3600_def json.case int_truediv_3600_def q1 b64_200 to_float_def) simp
  show "truediv_3600 (JInt 54) = Inr (FFin (8646911284551352 / 2 ^ 59))"
    using n2 by (simp only: truediv_3600_def json.case int_truediv_3600_def q2 b64_3_200 to_float_def) simp
  show "round2 (FFin (5764607523034235 / 2 ^ 60)) = FFin (b64 (1 / 100))"
    by code_simp
  show "round2 (FFin (8646911284551352 / 2 ^ 59)) = FFin (b64 (1 / 100))"
    by code_simp
qed

section \<open>Extraction errors\<close>

lemma extract_all_append_Inl:
  "extract_flight_info x = Inl e \<Longrightarrow> \<exists>e'. extract_all (pre @ x # post) = Inl e'"
  by (induction pre) (auto split: sum.splits)



text \<open>
  C5. A result record that lacks one of \<open>price\<close>, \<open>duration\<close>, \<open>quality\<close> and
  \<open>deep_link\<close> makes \<open>extract_flight_info\<close> raise: the result is an exception, never an
  offer with a default in the place of the missing field, and a missing \<open>price\<close> raises
  \<open>KeyError\<close> for that key. The exception reaches the callers: the comprehension of
  \<open>set_flights\<close> over a response that holds such a record raises as well.
\<close>

theorem extract_flight_info_missing_field:
  "map_of r ''price'' = None \<or> map_of r ''duration'' = None
     \<or> map_of r ''quality'' = None \<or> map_of r ''deep_link'' = None \<Longrightarrow>
   (\<exists>e. extract_flight_info (JObj r) = Inl e)
   \<and> (map_of r ''price'' = None \<longrightarrow> extract_flight_info (JObj r) = Inl (KeyError ''price''))
   \<and> (\<exists>e. extract_all (pre @ JObj r # post) = Inl e)
   \<and> (\<exists>e. set_flights (JArr (pre @ JObj r # post)) self = Inl e)"
proof -
  assume m: "map_of r ''price'' = None \<or> map_of r ''duration'' = None
     \<or> map_of r ''quality'' = None \<or> map_of r ''deep_link'' = None"
  then have 1: "\<exists>e. extract_flight_info (JObj r) = Inl e"
    by (auto simp: extract_flight_info_def getitem_def split: sum.splits option.splits)
  have 2: "map_of r ''price'' = None \<longrightarrow> extract_flight_info (JObj r) = Inl (KeyError ''price'')"
    by (simp add: extract_flight_info_def getitem_def)
  from 1 obtain e where "extract_flight_info (JObj r) = Inl e" ..
  then have 3: "\<exists>e. extract_all (pre @ JObj r # post) = Inl e"
    by (rule extract_all_append_Inl)
  then have 4: "\<exists>e. set_flights (JArr (pre @ JObj r # post)) self = Inl e"
    by (auto simp: set_flights_def py_iter_def)
  show ?thesis using 1 2 3 4 by blast
qed

theorem extract_flight_info_missing_field_witness:
  "map_of [(''duration'', JInt 36000), (''quality'', JFloat (FFin (15 / 2))),
           (''deep_link'', JStr ''http://x'')] ''price'' = None
   \<and> extract_flight_info (JObj [(''duration'', JInt 36000),
         (''quality'', JFloat (FFin (15 / 2))), (''deep_link'', JStr ''http://x'')])
       = Inl (KeyError ''price'')"
proof -
  let ?r = "[(''duration'', JInt 36000), (''quality'', JFloat (FFin (15 / 2))),
             (''deep_link'', JStr ''http://x'')]"
  have h: "map_of ?r ''price'' = None" by simp
  then have "map_of ?r ''price'' = None \<or> map_of ?r ''duration'' = None
     \<or> map_of ?r ''quality'' = None \<or> map_of ?r ''deep_link'' = None" by (rule disjI1)
  from extract_flight_info_missing_field [OF this, of "[]" "[]" "\<lparr>flight_plan = sample_plan, search_results = []\<rparr>"] h
  show ?thesis by blast
qed

section \<open>The per-itinerary boundary\<close>

text \<open>
  When the post raises, the status check raises, or the body does not parse,
  \<open>search_and_set_flights\<close> returns \<open>None\<close> and leaves the object as it was; it has no
  exceptional result, and the remote side is consulted once.
\<close>

lemma search_and_set_flights_failure:
  "kiwi (payload (flight_plan self)) = Post_raises
     \<or> kiwi (payload (flight_plan self)) = Status_raises
     \<or> kiwi (payload (flight_plan self)) = Loads_raises \<Longrightarrow>
   search_and_set_flights kiwi self = (None, self)
   \<and> (search_results self = [] \<longrightarrow> search_results (snd (search_and_set_flights kiwi self)) = [])"
  by (auto simp: search_and_set_flights_def get_raw_kiwi_results_def set_flights_def py_iter_def)

text \<open>
  In terms of the HTTP exchange: no answer at all, an answer with a status code from 400
  to 599, and an answer whose body is not JSON are failures of the search.
\<close>

lemma search_and_set_flights_http_failure:
  assumes "server (payload (flight_plan self)) = No_answer
     \<or> (\<exists>status_code loaded. server (payload (flight_plan self)) = Answer status_code loaded
           \<and> 400 \<le> status_code \<and> status_code < 600)
     \<or> (\<exists>status_code. server (payload (flight_plan self)) = Answer status_code None)"
  shows "search_and_set_flights (kiwi_of_http server) self = (None, self)"
proof -
  have "kiwi_of_http server (payload (flight_plan self)) = Post_raises
     \<or> kiwi_of_http server (payload (flight_plan self)) = Status_raises
     \<or> kiwi_of_http server (payload (flight_plan self)) = Loads_raises"
    using assms by (auto simp: kiwi_of_http_def raise_for_status_def split: if_splits)
  then show ?thesis by (simp add: search_and_set_flights_failure)
qed

lemma search_and_set_flights_http_failure_example:
  "search_and_set_flights (kiwi_of_http (server_answers 404 (Some (JArr [sample_record]))))
     \<lparr>flight_plan = sample_plan, search_results = []\<rparr>
   = (None, \<lparr>flight_plan = sample_plan, search_results = []\<rparr>)"
  by (rule search_and_set_flights_http_failure) (simp add: server_answers_def)

text \<open>
  C6. The claim has every status outside 2xx reported as a failure that leaves the offers
  empty, and the comment on the status check says the same. The status check lets a 1xx
  and a 3xx status through: when the remote side answers with status 300 and a body that
  parses to a list of one well-formed record, \<open>search_and_set_flights\<close> returns \<open>True\<close>
  and stores the offer.
\<close>

theorem search_and_set_flights_status_300:
  "\<not> raise_for_status 300
   \<and> search_and_set_flights (kiwi_of_http (server_answers 300 (Some (JArr [sample_record]))))
       \<lparr>flight_plan = sample_plan, search_results = []\<rparr>
     = (Some True,
        \<lparr>flight_plan = sample_plan,
         search_results = [\<lparr>price = JInt 450, duration = FFin 10,
           quality = JFloat (FFin (15 / 2)), link = JStr ''http://x''\<rparr>]\<rparr>)"
  by (simp add: search_and_set_flights_def get_raw_kiwi_results_def set_flights_def
      py_iter_def kiwi_of_http_def server_answers_def raise_for_status_def
      extract_sample_record)

text \<open>
  C10. \<open>search_and_set_flights\<close> returns \<open>True\<close> or \<open>None\<close>, never \<open>False\<close>, and it has no
  exceptional result. It returns \<open>True\<close> exactly when the remote call returned a parsed
  value, that value could be iterated, and every item was extracted; in every other case
  it returns \<open>None\<close>.
\<close>

theorem search_and_set_flights_returns:
  "fst (search_and_set_flights kiwi self) \<noteq> Some False
   \<and> (fst (search_and_set_flights kiwi self) = Some True
        \<or> fst (search_and_set_flights kiwi self) = None)
   \<and> (fst (search_and_set_flights kiwi self) = Some True \<longleftrightarrow>
        (\<exists>v items infos. kiwi (payload (flight_plan self)) = Loads_returns v
           \<and> py_iter v = Inr items \<and> extract_all items = Inr infos))
   \<and> (fst (search_and_set_flights kiwi self) = None \<longleftrightarrow>
        \<not> (\<exists>v items infos. kiwi (payload (flight_plan self)) = Loads_returns v
           \<and> py_iter v = Inr items \<and> extract_all items = Inr infos))"
proof -
  let ?ok = "\<exists>v items infos. kiwi (payload (flight_plan self)) = Loads_returns v
           \<and> py_iter v = Inr items \<and> extract_all items = Inr infos"
  have t: "fst (search_and_set_flights kiwi self) = Some True" if ?ok
    using that
    by (auto simp: search_and_set_flights_def get_raw_kiwi_results_def set_flights_def)
  have n: "fst (search_and_set_flights kiwi self) = None" if "\<not> ?ok"
  proof (cases "kiwi (payload (flight_plan self))")
    case (Loads_returns v)
    with that show ?thesis
      by (auto simp: search_and_set_flights_def get_raw_kiwi_results_def set_flights_def
          split: sum.splits)
  qed (simp_all add: search_and_set_flights_def get_raw_kiwi_results_def set_flights_def py_iter_def)
  show ?thesis using t n by (cases ?ok) auto
qed

theorem search_and_set_flights_returns_witness:
  "fst (search_and_set_flights (kiwi_returns (JArr [sample_record]))
          \<lparr>flight_plan = sample_plan, search_results = []\<rparr>) = Some True
   \<and> fst (search_and_set_flights (kiwi_returns (JArr [JObj []]))
          \<lparr>flight_plan = sample_plan, search_results = []\<rparr>) = None
   \<and> fst (search_and_set_flights kiwi_fails
          \<lparr>flight_plan = sample_plan, search_results = []\<rparr>) = None"
proof -
  let ?self = "\<lparr>flight_plan = sample_plan, search_results = []\<rparr>"
  have ok: "\<exists>v items infos. kiwi_returns (JArr [sample_record]) (payload (flight_plan ?self))
        = Loads_returns v \<and> py_iter v = Inr items \<and> extract_all items = Inr infos"
    by (simp add: kiwi_returns_def py_iter_def extract_sample_record)
  have bad: "\<not> (\<exists>v items infos. kiwi_returns (JArr [JObj []]) (payload (flight_plan ?self))
        = Loads_returns v \<and> py_iter v = Inr items \<and> extract_all items = Inr infos)"
    by (simp add: kiwi_returns_def py_iter_def extract_flight_info_def getitem_def)
  have fails: "\<not> (\<exists>v items infos. kiwi_fails (payload (flight_plan ?self))
        = Loads_returns v \<and> py_iter v = Inr items \<and> extract_all items = Inr infos)"
    by (simp add: kiwi_fails_def)
  show ?thesis
    using search_and_set_flights_returns [of "kiwi_returns (JArr [sample_record])" ?self]
      search_and_set_flights_returns [of "kiwi_returns (JArr [JObj []])" ?self]
      search_and_set_flights_returns [of kiwi_fails ?self] ok bad fails
    by blast
qed

section \<open>The exported rows\<close>

lemma rows_concat:
  "rows self =
     concat (map (\<lambda>plan. map (\<lambda>info.
        [CStr (home_out (flight_plan plan)), CStr (dest_in (flight_plan plan)),
         CStr (dest_out (flight_plan plan)), CStr (home_in (flight_plan plan)),
         CDate (date_from (flight_plan plan)), CDate (date_to (flight_plan plan))]
        @ [CJson (price info), CFloat (duration info), CJson (quality info), CJson (link info)])
        (search_results plan)) (all_flight_plans self))"
  by (simp add: rows_def)

lemma length_rows:
  "length (rows self) = sum_list (map (\<lambda>plan. length (search_results plan)) (all_flight_plans self))"
  by (simp add: rows_concat length_concat comp_def)

text \<open>
  C7. When no file operation raises, \<open>to_csv\<close> leaves at the given path one header row
  of the ten column names followed by the data rows: for every entry of the batch in batch
  order, and for every offer of that entry in offer order, one row made of the six
  fields of the itinerary followed by the four fields of the offer. The number of data
  rows is the total number of offers, an entry without offers contributes none, and
  when no entry has an offer the file holds the header row only.
\<close>

theorem to_csv_rows:
  assumes "open_raises io = None" "writerow_raises io = None" "writerows_raises io = None"
    "close_raises io = None"
  shows "\<exists>fs'. to_csv io self csv_name fs = Inr (0, fs')
     \<and> fs' csv_name = Some (csv_header # rows self)
     \<and> csv_header = map CStr [''Home Out'', ''Dest In'', ''Dest Out'', ''Home In'',
          ''Date From'', ''Date To'', ''Price'', ''Duration'', ''Quality'', ''Link'']
     \<and> length csv_header = 10
     \<and> rows self =
          concat (map (\<lambda>plan. map (\<lambda>info.
            [CStr (home_out (flight_plan plan)), CStr (dest_in (flight_plan plan)),
             CStr (dest_out (flight_plan plan)), CStr (home_in (flight_plan plan)),
             CDate (date_from (flight_plan plan)), CDate (date_to (flight_plan plan))]
            @ [CJson (price info), CFloat (duration info), CJson (quality info),
               CJson (link info)])
            (search_results plan)) (all_flight_plans self))
     \<and> length (rows self)
          = sum_list (map (\<lambda>plan. length (search_results plan)) (all_flight_plans self))
     \<and> ((\<forall>plan \<in> set (all_flight_plans self). search_results plan = []) \<longrightarrow>
          fs' csv_name = Some [csv_header])"
proof -
  let ?fs = "fs(csv_name \<mapsto> csv_header # rows self)"
  have r: "to_csv io self csv_name fs = Inr (0, ?fs)"
    using assms by (simp add: to_csv_def)
  have e: "rows self = []" if "\<forall>plan \<in> set (all_flight_plans self). search_results plan = []"
    using that by (simp add: rows_concat)
  have h: "csv_header = map CStr [''Home Out'', ''Dest In'', ''Dest Out'', ''Home In'',
          ''Date From'', ''Date To'', ''Price'', ''Duration'', ''Quality'', ''Link'']"
    by (simp add: csv_header_def)
  have l: "length csv_header = 10" by (simp add: csv_header_def)
  show ?thesis
    apply (rule exI [of _ ?fs])
    using r e h l rows_concat [of self] length_rows [of self] by simp
qed

theorem to_csv_rows_witness:
  "open_raises io_ok = None \<and> writerow_raises io_ok = None \<and> writerows_raises io_ok = None
   \<and> close_raises io_ok = None
   \<and> map search_results (all_flight_plans sample_batch) = [[]]
   \<and> (\<exists>fs'. to_csv io_ok sample_batch ''socal.csv'' Map.empty = Inr (0, fs')
         \<and> fs' ''socal.csv'' = Some [csv_header])"
proof -
  have h: "open_raises io_ok = None" "writerow_raises io_ok = None"
    "writerows_raises io_ok = None" "close_raises io_ok = None"
    by (simp_all add: io_ok_def)
  have e: "\<forall>plan \<in> set (all_flight_plans sample_batch). search_results plan = []"
    by (simp add: sample_batch_def)
  have m: "map search_results (all_flight_plans sample_batch) = [[]]"
    by (simp add: sample_batch_def)
  from to_csv_rows [OF h, of sample_batch "''socal.csv''" Map.empty] h e m
  show ?thesis by blast
qed

text \<open>
  C8. \<open>to_csv\<close> returns \<open>0\<close> when no file operation raises. It has no handler: when
  opening the file, writing the header, writing the rows or closing the file raises, the
  call ends with that exception.
\<close>

theorem to_csv_result:
  "(open_raises io = None \<and> writerow_raises io = None \<and> writerows_raises io = None
      \<and> close_raises io = None \<longrightarrow>
      (\<exists>fs'. to_csv io self csv_name fs = Inr (0, fs')))
   \<and> (open_raises io = Some e \<longrightarrow> to_csv io self csv_name fs = Inl e)
   \<and> (open_raises io = None \<and> writerow_raises io = Some e \<longrightarrow>
        to_csv io self csv_name fs = Inl e)
   \<and> (open_raises io = None \<and> writerow_raises io = None \<and> writerows_raises io = Some e \<longrightarrow>
        to_csv io self csv_name fs = Inl e)
   \<and> (open_raises io = None \<and> writerow_raises io = None \<and> writerows_raises io = None
        \<and> close_raises io = Some e \<longrightarrow> to_csv io self csv_name fs = Inl e)"
  by (simp add: to_csv_def)

theorem to_csv_result_witness:
  "open_raises io_ok = None \<and> writerow_raises io_ok = None \<and> writerows_raises io_ok = None
   \<and> close_raises io_ok = None
   \<and> (\<exists>fs'. to_csv io_ok sample_batch ''socal.csv'' Map.empty = Inr (0, fs'))
   \<and> open_raises (io_ok\<lparr>open_raises := Some OSError\<rparr>) = Some OSError
   \<and> to_csv (io_ok\<lparr>open_raises := Some OSError\<rparr>) sample_batch ''/nowhere/x.csv'' Map.empty
       = Inl OSError"
proof -
  have h: "open_raises io_ok = None \<and> writerow_raises io_ok = None
    \<and> writerows_raises io_ok = None \<and> close_raises io_ok = None"
    by (simp add: io_ok_def)
  have o: "open_raises (io_ok\<lparr>open_raises := Some OSError\<rparr>) = Some OSError" by simp
  note a = to_csv_result [of io_ok sample_batch "''socal.csv''" Map.empty OSError]
  note b = to_csv_result [of "io_ok\<lparr>open_raises := Some OSError\<rparr>" sample_batch
      "''/nowhere/x.csv''" Map.empty OSError]
  have 1: "\<exists>fs'. to_csv io_ok sample_batch ''socal.csv'' Map.empty = Inr (0, fs')"
    using a [THEN conjunct1] h by (rule mp)
  have 2: "to_csv (io_ok\<lparr>open_raises := Some OSError\<rparr>) sample_batch ''/nowhere/x.csv''
      Map.empty = Inl OSError"
    using b [THEN conjunct2, THEN conjunct1] o by (rule mp)
  show ?thesis using h o 1 2 by (intro conjI) (simp_all only:)
qed

section \<open>The length of the offers list\<close>








end
